theory Spec2Isabelle
  imports Complex_Main
begin

section \<open>The telemetry orchestrator of hydropulse (src/core/telemetry.core.ts)\<close>

text \<open>
  The class \<open>TelemetryCore\<close> is embedded with explicit state passing: every method takes the
  object's fields as a record \<open>core\<close> and returns the updated record. A method that can throw
  or reject returns a pair of an outcome (\<open>Inl\<close> the error thrown, \<open>Inr\<close> the value returned)
  and the state it leaves behind, because a JavaScript exception does not undo the
  assignments made before it.

  The two backends are external collaborators. Their behaviour is a parameter of the model
  (\<open>respond\<close>): given the history of provider calls so far and the next call, it says
  whether the promise resolves or rejects. Every provider call is appended to the field
  \<open>calls\<close>, so that "no backend was contacted" is a statement about that list.

  JavaScript numbers are modelled exactly: counters, sizes and times as \<open>int\<close>, the retry
  delays as \<open>real\<close>. One public call is one atomic step with one reading \<open>now\<close> of the clock;
  \<open>debugLog\<close> and the status banner only write to the console and are left out.
\<close>

subsection \<open>Rendering numbers in template strings\<close>

definition digit_char :: "nat \<Rightarrow> char" where
  "digit_char n = ''0123456789'' ! (n mod 10)"

fun show_nat :: "nat \<Rightarrow> string" where
  "show_nat n = (if n < 10 then [digit_char n] else show_nat (n div 10) @ [digit_char n])"

declare show_nat.simps [simp del]

definition show_int :: "int \<Rightarrow> string" where
  "show_int i = (if i < 0 then CHR ''-'' # show_nat (nat (- i)) else show_nat (nat i))"

subsection \<open>Data model (src/interfaces/telemetry.interfaces.ts)\<close>

text \<open>Payloads are arbitrary JavaScript values (\<open>Record<string, any>\<close>).\<close>

datatype jsval =
    JUndefined
  | JNull
  | JBool bool
  | JNum int
  | JBigInt int
  | JStr string
  | JArr "jsval list"
  | JObj "(string \<times> jsval) list"

datatype error = Error string | TypeError string | SyntaxError string

datatype event_type = Metric | Trace | Log

record TelemetryEvent =
  type :: event_type
  data :: jsval
  timestamp :: int
  retryCount :: "nat option"

datatype breaker_state = Closed | Open | HalfOpen

record CircuitBreakerState =
  state :: breaker_state
  failureCount :: int
  lastFailureTime :: "int option"
  nextAttemptTime :: "int option"

datatype provider_mode = ModeGrafana | ModeOpenTelemetry | ModeAlloy | ModeAuto

datatype provider_class = GrafanaProvider | OpenTelemetryProvider | AlloyProvider

text \<open>Which of the two provider objects a reference points to.\<close>

datatype slot = Primary | Fallback

text \<open>
  \<open>maxQueueSize\<close> is a JavaScript number that nothing checks (it may come from \<open>parseInt\<close>
  of an environment variable): any real value, \<open>NaN\<close> or an infinity. A comparison with
  \<open>NaN\<close> is false.
\<close>

datatype number = Finite real | NaN | PosInfinity | NegInfinity

text \<open>The test \<open>length >= x\<close> of an array length against a number.\<close>

definition length_ge :: "nat \<Rightarrow> number \<Rightarrow> bool" where
  "length_ge n x =
     (case x of
        Finite r \<Rightarrow> real n \<ge> r
      | NaN \<Rightarrow> False
      | PosInfinity \<Rightarrow> False
      | NegInfinity \<Rightarrow> True)"

record batching_config =
  maxQueueSize :: number
  scheduledDelayMillis :: int

record breaker_config =
  failureThreshold :: int
  resetTimeoutMs :: int

record retry_config =
  maxAttempts :: int
  backoffMultiplier :: real
  initialDelayMs :: real

text \<open>
  A redaction pattern is modelled by its effect as the argument of
  \<open>text.replace(pattern, '[REDACTED]')\<close>, a function on strings.
\<close>

type_synonym pattern = "string \<Rightarrow> string"

text \<open>
  \<open>piiPatterns\<close> is an optional property: the caller's object may lack it, or carry it with
  the value \<open>undefined\<close>, or with a list. The spread \<open>...config.sanitization\<close> copies every
  property the object carries, so an explicit \<open>undefined\<close> replaces the default list.
\<close>

datatype 'a property = Absent | Undefined | Present 'a

record sanitization_input =
  enabled' :: bool
  piiPatterns' :: "pattern list property"

record sanitization_config =
  enabled :: bool
  piiPatterns :: "pattern list option"

text \<open>
  The configuration object as the caller passes it (primed fields: a section may be absent,
  and the two required strings may be undefined at run time), and the object
  \<open>validateAndNormalizeConfig\<close> returns, where every section is present. A section that is
  given carries all the properties its interface requires, so its spread replaces each of
  the defaults; the one optional property of a section is \<open>piiPatterns\<close>. The sections the
  orchestrator never reads (sampling, environment, the backends' endpoints other than the
  presence of \<open>alloy\<close>) are not modelled.
\<close>

record TelemetryConfig' =
  provider' :: provider_mode
  serviceName' :: "string option"
  serviceVersion' :: "string option"
  alloy' :: bool
  batching' :: "batching_config option"
  circuitBreaker' :: "breaker_config option"
  retry' :: "retry_config option"
  debug' :: "bool option"
  sanitization' :: "sanitization_input option"

record TelemetryConfig =
  provider :: provider_mode
  serviceName :: string
  serviceVersion :: string
  alloy :: bool
  batching :: batching_config
  circuitBreaker :: breaker_config
  retry :: retry_config
  debug :: bool
  sanitization :: sanitization_config

text \<open>The methods of the \<open>TelemetryProvider\<close> interface, and a call of one on a provider object.\<close>

datatype pcall =
    Initialize
  | RecordMetric jsval
  | RecordLog jsval
  | StartTrace jsval
  | EndTrace string jsval
  | Flush
  | Shutdown

type_synonym call = "slot \<times> pcall"

text \<open>
  What the program does not define: the two JSON functions of the language, the default
  redaction patterns (regular expressions), the configuration read from the process
  environment, and the backends. \<open>respond h c\<close> is the outcome of the provider call \<open>c\<close>
  made after the calls \<open>h\<close>: \<open>Inl e\<close> when the promise rejects with \<open>e\<close>, \<open>Inr v\<close> when it
  resolves (\<open>v\<close> is the span id for \<open>StartTrace\<close> and is ignored otherwise).
\<close>

record runtime =
  JSON_stringify :: "jsval \<Rightarrow> error + string option"
  JSON_parse :: "string \<Rightarrow> error + jsval"
  defaultPiiPatterns :: "pattern list"
  loadHydropulseConfig :: "TelemetryConfig'"
  respond :: "call list \<Rightarrow> call \<Rightarrow> error + string"
  isHealthy :: "call list \<Rightarrow> slot \<Rightarrow> bool"

text \<open>A timer armed by \<open>setTimeout\<close> in \<open>retryEvent\<close>: the delay and what the callback captured.\<close>

record timer =
  delay :: real
  eventKey :: string
  timerEvent :: TelemetryEvent
  timerRetryCount :: nat

text \<open>
  The fields of \<open>TelemetryCore\<close>, followed by what the object's environment holds for it:
  the timers that are armed (a map from the handles \<open>setTimeout\<close> returned), the next
  handle, and the provider calls made.
\<close>

record core =
  config :: TelemetryConfig
  primaryProvider :: provider_class
  fallbackProvider :: provider_class
  currentProvider :: slot
  circuitBreakerState :: CircuitBreakerState
  eventQueue :: "TelemetryEvent list"
  isInitialized :: bool
  retryTimeouts :: "string \<rightharpoonup> nat"
  metricsCount :: int
  timers :: "nat \<rightharpoonup> timer"
  nextHandle :: nat
  calls :: "call list"

record HealthStatus =
  healthy :: bool
  providerName :: string
  queueSize :: nat
  circuitBreakerStateName :: string

subsection \<open>Circuit breaker\<close>

definition closedBreaker :: CircuitBreakerState where
  "closedBreaker =
     \<lparr>state = Closed, failureCount = 0, lastFailureTime = None, nextAttemptTime = None\<rparr>"

definition initializeCircuitBreaker :: "core \<Rightarrow> core" where
  "initializeCircuitBreaker s = s\<lparr>circuitBreakerState := closedBreaker\<rparr>"

definition openCircuitBreaker :: "int \<Rightarrow> core \<Rightarrow> core" where
  "openCircuitBreaker now s =
     s\<lparr>circuitBreakerState :=
         \<lparr>state = Open,
          failureCount = failureCount (circuitBreakerState s) + 1,
          lastFailureTime = Some now,
          nextAttemptTime = Some (now + resetTimeoutMs (circuitBreaker (config s)))\<rparr>\<rparr>"

text \<open>
  The gate. A comparison with an undefined \<open>nextAttemptTime\<close> is false in JavaScript.
\<close>

definition shouldAttemptRequest :: "int \<Rightarrow> core \<Rightarrow> bool \<times> core" where
  "shouldAttemptRequest now s =
     (case state (circuitBreakerState s) of
        Closed \<Rightarrow> (True, s)
      | Open \<Rightarrow>
          (case nextAttemptTime (circuitBreakerState s) of
             Some t \<Rightarrow>
               if now \<ge> t
               then (True, s\<lparr>circuitBreakerState := (circuitBreakerState s)\<lparr>state := HalfOpen\<rparr>\<rparr>)
               else (False, s)
           | None \<Rightarrow> (False, s))
      | HalfOpen \<Rightarrow> (True, s))"

definition handleSuccess :: "core \<Rightarrow> core" where
  "handleSuccess s =
     (if state (circuitBreakerState s) = HalfOpen
      then s\<lparr>circuitBreakerState := closedBreaker\<rparr>
      else s)"

definition handleFailure :: "int \<Rightarrow> core \<Rightarrow> core" where
  "handleFailure now s =
     (let s1 = s\<lparr>circuitBreakerState :=
                  (circuitBreakerState s)\<lparr>failureCount := failureCount (circuitBreakerState s) + 1\<rparr>\<rparr>
      in if failureCount (circuitBreakerState s1) \<ge> failureThreshold (circuitBreaker (config s1))
         then openCircuitBreaker now s1
         else s1)"

subsection \<open>Event queue\<close>

text \<open>\<open>Array.prototype.shift\<close> on an empty array removes nothing, as \<open>tl []\<close> is \<open>[]\<close>.\<close>

definition queueEvent :: "TelemetryEvent \<Rightarrow> core \<Rightarrow> core" where
  "queueEvent event s =
     (let q = (if length_ge (length (eventQueue s)) (maxQueueSize (batching (config s)))
               then tl (eventQueue s) else eventQueue s)
      in s\<lparr>eventQueue := q @ [event]\<rparr>)"

subsection \<open>Retry scheduling\<close>

definition type_name :: "event_type \<Rightarrow> string" where
  "type_name t = (case t of Metric \<Rightarrow> ''metric'' | Trace \<Rightarrow> ''trace'' | Log \<Rightarrow> ''log'')"

text \<open>
  \<open>retryEvent\<close> computes the incremented attempt count; beyond \<open>maxAttempts\<close> it returns
  without arming anything. Otherwise \<open>setTimeout\<close> arms a timer under a fresh handle and the
  handle is stored in the map \<open>retryTimeouts\<close> under the event's key.
\<close>

definition retryEvent :: "TelemetryEvent \<Rightarrow> core \<Rightarrow> core" where
  "retryEvent event s =
     (let rc = (case retryCount event of None \<Rightarrow> 0 | Some n \<Rightarrow> n) + 1
      in if int rc > maxAttempts (retry (config s)) then s
         else
           (let d = initialDelayMs (retry (config s)) * backoffMultiplier (retry (config s)) ^ (rc - 1);
                k = type_name (type event) @ ''-'' @ show_int (timestamp event) @ ''-'' @ show_nat rc;
                h = nextHandle s
            in s\<lparr>timers := (timers s)(h \<mapsto> \<lparr>delay = d, eventKey = k, timerEvent = event, timerRetryCount = rc\<rparr>),
                 nextHandle := h + 1,
                 retryTimeouts := (retryTimeouts s)(k \<mapsto> h)\<rparr>))"

subsection \<open>Talking to the current backend\<close>

definition callProvider :: "runtime \<Rightarrow> pcall \<Rightarrow> core \<Rightarrow> (error + string) \<times> core" where
  "callProvider rt c s =
     (respond rt (calls s) (currentProvider s, c),
      s\<lparr>calls := calls s @ [(currentProvider s, c)]\<rparr>)"

definition sendEvent :: "runtime \<Rightarrow> TelemetryEvent \<Rightarrow> core \<Rightarrow> (error + unit) \<times> core" where
  "sendEvent rt event s =
     (case type event of
        Metric \<Rightarrow> (case callProvider rt (RecordMetric (data event)) s of
                     (Inl e, s1) \<Rightarrow> (Inl e, s1) | (Inr _, s1) \<Rightarrow> (Inr (), s1))
      | Log \<Rightarrow> (case callProvider rt (RecordLog (data event)) s of
                  (Inl e, s1) \<Rightarrow> (Inl e, s1) | (Inr _, s1) \<Rightarrow> (Inr (), s1))
      | Trace \<Rightarrow> (Inr (), s))"

text \<open>The loop of \<open>processQueuedEvents\<close> over the copied queue.\<close>

fun drainEvents :: "runtime \<Rightarrow> TelemetryEvent list \<Rightarrow> core \<Rightarrow> core" where
  "drainEvents rt [] s = s"
| "drainEvents rt (event # events) s =
     (case sendEvent rt event s of
        (Inr _, s1) \<Rightarrow> drainEvents rt events s1
      | (Inl _, s1) \<Rightarrow> drainEvents rt events (retryEvent event s1))"

definition processQueuedEvents :: "runtime \<Rightarrow> core \<Rightarrow> core" where
  "processQueuedEvents rt s =
     (if eventQueue s = [] then s
      else drainEvents rt (eventQueue s) (s\<lparr>eventQueue := []\<rparr>))"

definition switchToFallback :: "runtime \<Rightarrow> int \<Rightarrow> core \<Rightarrow> (error + unit) \<times> core" where
  "switchToFallback rt now s =
     (case callProvider rt Initialize (s\<lparr>currentProvider := Fallback\<rparr>) of
        (Inr _, s1) \<Rightarrow>
          (Inr (), processQueuedEvents rt (s1\<lparr>circuitBreakerState := closedBreaker\<rparr>))
      | (Inl _, s1) \<Rightarrow>
          (Inl (Error ''Both primary and fallback providers failed to initialize''),
           openCircuitBreaker now s1))"

definition handleProviderError :: "runtime \<Rightarrow> int \<Rightarrow> TelemetryEvent \<Rightarrow> core \<Rightarrow> (error + unit) \<times> core" where
  "handleProviderError rt now event s =
     (if currentProvider s = Primary
      then (case switchToFallback rt now s of
              (Inr _, s1) \<Rightarrow>
                (case sendEvent rt event s1 of
                   (Inr _, s2) \<Rightarrow> (Inr (), s2)
                 | (Inl _, s2) \<Rightarrow> (Inr (), retryEvent event s2))
            | (Inl _, s1) \<Rightarrow> (Inr (), retryEvent event s1))
      else (Inr (), retryEvent event s))"

definition processEvent :: "runtime \<Rightarrow> int \<Rightarrow> TelemetryEvent \<Rightarrow> core \<Rightarrow> (error + unit) \<times> core" where
  "processEvent rt now event s =
     (case shouldAttemptRequest now s of
        (False, s1) \<Rightarrow> (Inr (), queueEvent event s1)
      | (True, s1) \<Rightarrow>
          (case sendEvent rt event s1 of
             (Inr _, s2) \<Rightarrow> (Inr (), handleSuccess s2)
           | (Inl e, s2) \<Rightarrow> handleProviderError rt now event (handleFailure now s2)))"

text \<open>
  The callback \<open>retryEvent\<close> hands to \<open>setTimeout\<close>, run when the timer with handle \<open>h\<close> fires:
  it removes the key from \<open>retryTimeouts\<close>, stores the attempt count in the event and hands
  the event to \<open>processEvent\<close>. A handle that is not armed fires nothing.
\<close>

definition retryTimerFired :: "runtime \<Rightarrow> int \<Rightarrow> nat \<Rightarrow> core \<Rightarrow> (error + unit) \<times> core" where
  "retryTimerFired rt now h s =
     (case timers s h of
        None \<Rightarrow> (Inr (), s)
      | Some t \<Rightarrow>
          processEvent rt now ((timerEvent t)\<lparr>retryCount := Some (timerRetryCount t)\<rparr>)
            (s\<lparr>timers := (timers s)(h := None),
               retryTimeouts := (retryTimeouts s)(eventKey t := None)\<rparr>))"

subsection \<open>Sanitizer\<close>

text \<open>
  The loop over the patterns. \<open>JSON.stringify\<close> returns \<open>undefined\<close> for some values (here
  \<open>None\<close>), on which \<open>.replace\<close> is a TypeError.
\<close>

fun redact :: "pattern list \<Rightarrow> string option \<Rightarrow> error + string option" where
  "redact [] sanitized = Inr sanitized"
| "redact (p # ps) None =
     Inl (TypeError ''Cannot read properties of undefined (reading 'replace')'')"
| "redact (p # ps) (Some text) = redact ps (Some (p text))"

text \<open>
  Only \<open>JSON.parse\<close> stands inside the \<open>try\<close>. \<open>JSON.parse(undefined)\<close> parses the text
  \<open>undefined\<close>. A \<open>for ... of\<close> over an undefined \<open>piiPatterns\<close> is a TypeError, raised
  after the serialization.
\<close>

definition sanitizeData :: "runtime \<Rightarrow> TelemetryConfig \<Rightarrow> jsval \<Rightarrow> error + jsval" where
  "sanitizeData rt cfg d =
     (if \<not> enabled (sanitization cfg) then Inr d
      else (case JSON_stringify rt d of
              Inl e \<Rightarrow> Inl e
            | Inr serialized \<Rightarrow>
                (case piiPatterns (sanitization cfg) of
                   None \<Rightarrow>
                     Inl (TypeError ''this.config.sanitization.piiPatterns is not iterable'')
                 | Some patterns \<Rightarrow>
                     (case redact patterns serialized of
                        Inl e \<Rightarrow> Inl e
                      | Inr sanitized \<Rightarrow>
                          (case JSON_parse rt
                                  (case sanitized of None \<Rightarrow> ''undefined'' | Some text \<Rightarrow> text) of
                             Inr v \<Rightarrow> Inr v
                           | Inl _ \<Rightarrow> Inr d)))))"

subsection \<open>Public recording API\<close>

definition recordMetric :: "runtime \<Rightarrow> int \<Rightarrow> jsval \<Rightarrow> core \<Rightarrow> (error + unit) \<times> core" where
  "recordMetric rt now metric s =
     (case sanitizeData rt (config s) metric of
        Inl e \<Rightarrow> (Inl e, s)
      | Inr sanitizedMetric \<Rightarrow>
          processEvent rt now
            \<lparr>type = Metric, data = sanitizedMetric, timestamp = now, retryCount = None\<rparr>
            (s\<lparr>metricsCount := metricsCount s + 1\<rparr>))"

definition recordLog :: "runtime \<Rightarrow> int \<Rightarrow> jsval \<Rightarrow> core \<Rightarrow> (error + unit) \<times> core" where
  "recordLog rt now entry s =
     (case sanitizeData rt (config s) entry of
        Inl e \<Rightarrow> (Inl e, s)
      | Inr sanitizedLog \<Rightarrow>
          processEvent rt now
            \<lparr>type = Log, data = sanitizedLog, timestamp = now, retryCount = None\<rparr> s)"

definition startTrace :: "runtime \<Rightarrow> int \<Rightarrow> jsval \<Rightarrow> core \<Rightarrow> (error + string) \<times> core" where
  "startTrace rt now trace s =
     (case sanitizeData rt (config s) trace of
        Inl e \<Rightarrow> (Inl e, s)
      | Inr sanitizedTrace \<Rightarrow>
          (let event = \<lparr>type = Trace, data = sanitizedTrace, timestamp = now, retryCount = None\<rparr>
           in case shouldAttemptRequest now s of
                (False, s1) \<Rightarrow> (Inr (''queued-'' @ show_int now), queueEvent event s1)
              | (True, s1) \<Rightarrow>
                  (case callProvider rt (StartTrace sanitizedTrace) s1 of
                     (Inr spanId, s2) \<Rightarrow> (Inr spanId, handleSuccess s2)
                   | (Inl e, s2) \<Rightarrow>
                       (case handleProviderError rt now event (handleFailure now s2) of
                          (Inr _, s3) \<Rightarrow> (Inl e, s3)
                        | (Inl e', s3) \<Rightarrow> (Inl e', s3)))))"

text \<open>The test \<open>attributes ? ... : undefined\<close> is on JavaScript truthiness.\<close>

definition truthy :: "jsval \<Rightarrow> bool" where
  "truthy v =
     (case v of
        JUndefined \<Rightarrow> False | JNull \<Rightarrow> False | JBool b \<Rightarrow> b | JNum n \<Rightarrow> n \<noteq> 0
      | JBigInt n \<Rightarrow> n \<noteq> 0 | JStr t \<Rightarrow> t \<noteq> [] | JArr _ \<Rightarrow> True | JObj _ \<Rightarrow> True)"

definition endTrace :: "runtime \<Rightarrow> int \<Rightarrow> string \<Rightarrow> jsval \<Rightarrow> core \<Rightarrow> (error + unit) \<times> core" where
  "endTrace rt now spanId attributes s =
     (case (if truthy attributes then sanitizeData rt (config s) attributes else Inr JUndefined) of
        Inl e \<Rightarrow> (Inl e, s)
      | Inr sanitizedAttributes \<Rightarrow>
          (case shouldAttemptRequest now s of
             (False, s1) \<Rightarrow> (Inr (), s1)
           | (True, s1) \<Rightarrow>
               (case callProvider rt (EndTrace spanId sanitizedAttributes) s1 of
                  (Inr _, s2) \<Rightarrow> (Inr (), handleSuccess s2)
                | (Inl _, s2) \<Rightarrow> (Inr (), handleFailure now s2))))"

subsection \<open>Construction, initialization, health\<close>

definition validateAndNormalizeConfig :: "runtime \<Rightarrow> TelemetryConfig' \<Rightarrow> error + TelemetryConfig" where
  "validateAndNormalizeConfig rt c =
     (case serviceName' c of
        None \<Rightarrow> Inl (Error ''serviceName is required in telemetry configuration'')
      | Some name \<Rightarrow>
          if name = [] then Inl (Error ''serviceName is required in telemetry configuration'')
          else
            (case serviceVersion' c of
               None \<Rightarrow> Inl (Error ''serviceVersion is required in telemetry configuration'')
             | Some version \<Rightarrow>
                 if version = []
                 then Inl (Error ''serviceVersion is required in telemetry configuration'')
                 else Inr
                   \<lparr>provider = provider' c,
                    serviceName = name,
                    serviceVersion = version,
                    alloy = alloy' c,
                    batching = (case batching' c of
                        None \<Rightarrow> \<lparr>maxQueueSize = Finite 1000, scheduledDelayMillis = 5000\<rparr>
                      | Some b \<Rightarrow> b),
                    circuitBreaker = (case circuitBreaker' c of
                        None \<Rightarrow> \<lparr>failureThreshold = 5, resetTimeoutMs = 60000\<rparr>
                      | Some b \<Rightarrow> b),
                    retry = (case retry' c of
                        None \<Rightarrow> \<lparr>maxAttempts = 3, backoffMultiplier = 2, initialDelayMs = 1000\<rparr>
                      | Some r \<Rightarrow> r),
                    debug = (case debug' c of None \<Rightarrow> False | Some b \<Rightarrow> b),
                    sanitization = (case sanitization' c of
                        None \<Rightarrow> \<lparr>enabled = True, piiPatterns = Some (defaultPiiPatterns rt)\<rparr>
                      | Some z \<Rightarrow>
                          \<lparr>enabled = enabled' z,
                           piiPatterns = (case piiPatterns' z of
                               Absent \<Rightarrow> Some (defaultPiiPatterns rt)
                             | Undefined \<Rightarrow> None
                             | Present ps \<Rightarrow> Some ps)\<rparr>)\<rparr>))"

definition initializeProviders :: "TelemetryConfig \<Rightarrow> provider_class \<times> provider_class" where
  "initializeProviders cfg =
     (case provider cfg of
        ModeGrafana \<Rightarrow> (GrafanaProvider, OpenTelemetryProvider)
      | ModeOpenTelemetry \<Rightarrow> (OpenTelemetryProvider, GrafanaProvider)
      | ModeAlloy \<Rightarrow> (AlloyProvider, OpenTelemetryProvider)
      | ModeAuto \<Rightarrow>
          if alloy cfg then (AlloyProvider, OpenTelemetryProvider)
          else (GrafanaProvider, OpenTelemetryProvider))"

text \<open>
  The constructor: field initializers, then validation, then the providers (the current one
  is the primary), then the breaker. An error of the validation leaves no object.
\<close>

definition newTelemetryCore :: "runtime \<Rightarrow> TelemetryConfig' option \<Rightarrow> error + core" where
  "newTelemetryCore rt c =
     (case validateAndNormalizeConfig rt
             (case c of Some given \<Rightarrow> given | None \<Rightarrow> loadHydropulseConfig rt) of
        Inl e \<Rightarrow> Inl e
      | Inr cfg \<Rightarrow>
          Inr (initializeCircuitBreaker
                 \<lparr>config = cfg,
                  primaryProvider = fst (initializeProviders cfg),
                  fallbackProvider = snd (initializeProviders cfg),
                  currentProvider = Primary,
                  circuitBreakerState = closedBreaker,
                  eventQueue = [],
                  isInitialized = False,
                  retryTimeouts = Map.empty,
                  metricsCount = 0,
                  timers = Map.empty,
                  nextHandle = 0,
                  calls = []\<rparr>))"

text \<open>
  \<open>initialize\<close>. The status banner printed between the primary's initialization and the drain
  of the queue is taken not to throw.
\<close>

definition initialize :: "runtime \<Rightarrow> int \<Rightarrow> core \<Rightarrow> (error + unit) \<times> core" where
  "initialize rt now s =
     (if isInitialized s then (Inr (), s)
      else (case callProvider rt Initialize s of
              (Inr _, s1) \<Rightarrow> (Inr (), processQueuedEvents rt (s1\<lparr>isInitialized := True\<rparr>))
            | (Inl _, s1) \<Rightarrow> switchToFallback rt now s1))"

definition breaker_state_name :: "breaker_state \<Rightarrow> string" where
  "breaker_state_name b =
     (case b of Closed \<Rightarrow> ''closed'' | Open \<Rightarrow> ''open'' | HalfOpen \<Rightarrow> ''half-open'')"

definition getHealthStatus :: "runtime \<Rightarrow> core \<Rightarrow> HealthStatus" where
  "getHealthStatus rt s =
     \<lparr>healthy = (isInitialized s \<and> isHealthy rt (calls s) (currentProvider s)),
      providerName = (if currentProvider s = Primary then ''primary'' else ''fallback''),
      queueSize = length (eventQueue s),
      circuitBreakerStateName = breaker_state_name (state (circuitBreakerState s))\<rparr>"

subsection \<open>\<open>JSON.stringify\<close> on the modelled values\<close>

text \<open>
  The serialization the language defines (ECMA-262, \<open>JSON.stringify\<close> without replacer or
  indentation) on the values of \<open>jsval\<close>: \<open>undefined\<close> has no text (it is omitted from an
  object and written \<open>null\<close> in an array), strings are quoted with the standard escapes, and
  a BigInt is a TypeError. It instantiates \<open>JSON_stringify\<close> in the examples.
\<close>

definition hex_char :: "nat \<Rightarrow> char" where
  "hex_char n = ''0123456789abcdef'' ! (n mod 16)"

definition escape_json :: "char \<Rightarrow> string" where
  "escape_json c =
     (let n = (of_char c :: nat) in
      if n = 0x22 then [CHR 0x5C, CHR 0x22]
      else if n = 0x5C then [CHR 0x5C, CHR 0x5C]
      else if n = 8 then [CHR 0x5C, CHR ''b'']
      else if n = 9 then [CHR 0x5C, CHR ''t'']
      else if n = 10 then [CHR 0x5C, CHR ''n'']
      else if n = 12 then [CHR 0x5C, CHR ''f'']
      else if n = 13 then [CHR 0x5C, CHR ''r'']
      else if n < 32 then [CHR 0x5C, CHR ''u'', CHR ''0'', CHR ''0'', hex_char (n div 16), hex_char n]
      else [c])"

definition quote_json :: "string \<Rightarrow> string" where
  "quote_json t = CHR 0x22 # concat (map escape_json t) @ [CHR 0x22]"

fun join :: "string list \<Rightarrow> string" where
  "join [] = []"
| "join [t] = t"
| "join (t # u # ts) = t @ '','' @ join (u # ts)"

fun serialize :: "jsval \<Rightarrow> error + string option"
  and serialize_elements :: "jsval list \<Rightarrow> error + string list"
  and serialize_members :: "(string \<times> jsval) list \<Rightarrow> error + string list" where
  "serialize JUndefined = Inr None"
| "serialize JNull = Inr (Some ''null'')"
| "serialize (JBool b) = Inr (Some (if b then ''true'' else ''false''))"
| "serialize (JNum n) = Inr (Some (show_int n))"
| "serialize (JBigInt n) = Inl (TypeError ''Do not know how to serialize a BigInt'')"
| "serialize (JStr t) = Inr (Some (quote_json t))"
| "serialize (JArr vs) =
     (case serialize_elements vs of
        Inl e \<Rightarrow> Inl e
      | Inr ts \<Rightarrow> Inr (Some (''['' @ join ts @ '']'')))"
| "serialize (JObj kvs) =
     (case serialize_members kvs of
        Inl e \<Rightarrow> Inl e
      | Inr ts \<Rightarrow> Inr (Some (''{'' @ join ts @ ''}'')))"
| "serialize_elements [] = Inr []"
| "serialize_elements (v # vs) =
     (case serialize v of
        Inl e \<Rightarrow> Inl e
      | Inr r \<Rightarrow>
          (case serialize_elements vs of
             Inl e \<Rightarrow> Inl e
           | Inr ts \<Rightarrow> Inr ((case r of None \<Rightarrow> ''null'' | Some t \<Rightarrow> t) # ts)))"
| "serialize_members [] = Inr []"
| "serialize_members (kv # kvs) =
     (case serialize (snd kv) of
        Inl e \<Rightarrow> Inl e
      | Inr r \<Rightarrow>
          (case serialize_members kvs of
             Inl e \<Rightarrow> Inl e
           | Inr ts \<Rightarrow>
               Inr (case r of None \<Rightarrow> ts | Some t \<Rightarrow> (quote_json (fst kv) @ '':'' @ t) # ts)))"


subsection \<open>The calls a drain of the queue makes\<close>

text \<open>
  The provider calls that delivering a list of events in order consists of: one
  \<open>recordMetric\<close> or \<open>recordLog\<close> per metric or log event, none for a trace event (the
  \<open>trace\<close> branch of \<open>sendEvent\<close> is empty).
\<close>

fun deliveryCalls :: "slot \<Rightarrow> TelemetryEvent list \<Rightarrow> call list" where
  "deliveryCalls p [] = []"
| "deliveryCalls p (event # events) =
     (case type event of
        Metric \<Rightarrow> [(p, RecordMetric (data event))]
      | Log \<Rightarrow> [(p, RecordLog (data event))]
      | Trace \<Rightarrow> []) @ deliveryCalls p events"

subsection \<open>Sequences of reported outcomes\<close>

text \<open>
  A delivery reports its outcome to the breaker through \<open>handleSuccess\<close> or
  \<open>handleFailure\<close> (at the time given); a history of deliveries is a list of reports.
\<close>

datatype delivery = Succeeded | Failed

definition reportOutcome :: "delivery \<times> int \<Rightarrow> core \<Rightarrow> core" where
  "reportOutcome d s = (case fst d of Succeeded \<Rightarrow> handleSuccess s | Failed \<Rightarrow> handleFailure (snd d) s)"

definition failures :: "(delivery \<times> int) list \<Rightarrow> int" where
  "failures ds = int (length (filter (\<lambda>d. fst d = Failed) ds))"

subsection \<open>Example values\<close>

text \<open>
  A configuration after the repository's test suite (with a queue of three), the object the
  constructor builds from it, a payload without personal data (so that the default patterns
  leave its text as it is), a parser that knows the text of that payload, and three
  behaviours of the backends.
\<close>

definition exampleInput :: "TelemetryConfig'" where
  "exampleInput =
     \<lparr>provider' = ModeAuto,
      serviceName' = Some ''test-service'',
      serviceVersion' = Some ''1.0.0'',
      alloy' = False,
      batching' = Some \<lparr>maxQueueSize = Finite 3, scheduledDelayMillis = 1000\<rparr>,
      circuitBreaker' = None,
      retry' = None,
      debug' = Some False,
      sanitization' = None\<rparr>"

definition exampleMetric :: jsval where
  "exampleMetric = JObj [(''name'', JStr ''requests''), (''value'', JNum 1)]"

definition exampleParse :: "string \<Rightarrow> error + jsval" where
  "exampleParse t =
     (if Inr (Some t) = serialize exampleMetric then Inr exampleMetric
      else Inl (SyntaxError ''Unexpected token''))"

definition exampleRuntime :: "(call list \<Rightarrow> call \<Rightarrow> error + string) \<Rightarrow> runtime" where
  "exampleRuntime r =
     \<lparr>JSON_stringify = serialize,
      JSON_parse = exampleParse,
      defaultPiiPatterns = [\<lambda>t. t, \<lambda>t. t, \<lambda>t. t],
      loadHydropulseConfig = exampleInput,
      respond = r,
      isHealthy = (\<lambda>h p. True)\<rparr>"

definition allResolve :: "call list \<Rightarrow> call \<Rightarrow> error + string" where
  "allResolve h c = Inr ''span-1''"

definition allReject :: "call list \<Rightarrow> call \<Rightarrow> error + string" where
  "allReject h c = Inl (Error ''backend unavailable'')"

definition primaryRejects :: "call list \<Rightarrow> call \<Rightarrow> error + string" where
  "primaryRejects h c =
     (case fst c of Primary \<Rightarrow> Inl (Error ''backend unavailable'') | Fallback \<Rightarrow> Inr ''span-1'')"

definition exampleConfig :: TelemetryConfig where
  "exampleConfig =
     \<lparr>provider = ModeAuto,
      serviceName = ''test-service'',
      serviceVersion = ''1.0.0'',
      alloy = False,
      batching = \<lparr>maxQueueSize = Finite 3, scheduledDelayMillis = 1000\<rparr>,
      circuitBreaker = \<lparr>failureThreshold = 5, resetTimeoutMs = 60000\<rparr>,
      retry = \<lparr>maxAttempts = 3, backoffMultiplier = 2, initialDelayMs = 1000\<rparr>,
      debug = False,
      sanitization = \<lparr>enabled = True, piiPatterns = Some [\<lambda>t. t, \<lambda>t. t, \<lambda>t. t]\<rparr>\<rparr>"

definition exampleCore :: core where
  "exampleCore =
     \<lparr>config = exampleConfig,
      primaryProvider = GrafanaProvider,
      fallbackProvider = OpenTelemetryProvider,
      currentProvider = Primary,
      circuitBreakerState = closedBreaker,
      eventQueue = [],
      isInitialized = False,
      retryTimeouts = Map.empty,
      metricsCount = 0,
      timers = Map.empty,
      nextHandle = 0,
      calls = []\<rparr>"

definition exampleEvent :: "int \<Rightarrow> TelemetryEvent" where
  "exampleEvent n = \<lparr>type = Metric, data = exampleMetric, timestamp = n, retryCount = None\<rparr>"

definition exampleOpenCore :: core where
  "exampleOpenCore = snd (initialize (exampleRuntime allReject) 1000 exampleCore)"

definition zeroQueueInput :: "TelemetryConfig'" where
  "zeroQueueInput =
     exampleInput\<lparr>batching' := Some \<lparr>maxQueueSize = Finite 0, scheduledDelayMillis = 1000\<rparr>\<rparr>"

definition zeroQueueCore :: core where
  "zeroQueueCore =
     exampleCore\<lparr>config := exampleConfig
       \<lparr>batching := \<lparr>maxQueueSize = Finite 0, scheduledDelayMillis = 1000\<rparr>\<rparr>\<rparr>"

definition fractionalQueueInput :: "TelemetryConfig'" where
  "fractionalQueueInput =
     exampleInput\<lparr>batching' := Some \<lparr>maxQueueSize = Finite (5 / 2), scheduledDelayMillis = 1000\<rparr>\<rparr>"

definition fractionalQueueCore :: core where
  "fractionalQueueCore =
     exampleCore\<lparr>config := exampleConfig
       \<lparr>batching := \<lparr>maxQueueSize = Finite (5 / 2), scheduledDelayMillis = 1000\<rparr>\<rparr>\<rparr>"

definition undefinedPatternsInput :: "TelemetryConfig'" where
  "undefinedPatternsInput =
     exampleInput\<lparr>sanitization' := Some \<lparr>enabled' = True, piiPatterns' = Undefined\<rparr>\<rparr>"

definition exampleHalfOpenCore :: core where
  "exampleHalfOpenCore =
     snd (shouldAttemptRequest 70000
       (handleFailure 5 (handleFailure 4 (handleFailure 3 (handleFailure 2 (handleFailure 1 exampleCore))))))"

definition bigIntMetric :: jsval where
  "bigIntMetric =
     JObj [(''name'', JStr ''orders''), (''value'', JNum 1),
           (''attributes'', JObj [(''orderId'', JBigInt 9007199254740993)])]"

definition noNameInput :: "TelemetryConfig'" where
  "noNameInput = exampleInput\<lparr>serviceName' := Some []\<rparr>"

definition retriedEvent :: "nat \<Rightarrow> TelemetryEvent" where
  "retriedEvent n = \<lparr>type = Metric, data = exampleMetric, timestamp = 2000, retryCount = Some n\<rparr>"

definition exampleLogEvent :: "int \<Rightarrow> TelemetryEvent" where
  "exampleLogEvent n = \<lparr>type = Log, data = exampleMetric, timestamp = n, retryCount = None\<rparr>"

definition exampleTraceEvent :: "int \<Rightarrow> TelemetryEvent" where
  "exampleTraceEvent n = \<lparr>type = Trace, data = exampleMetric, timestamp = n, retryCount = None\<rparr>"

definition exampleQueuedCore :: core where
  "exampleQueuedCore =
     queueEvent (exampleLogEvent 3) (queueEvent (exampleTraceEvent 2) (queueEvent (exampleEvent 1) exampleCore))"

section \<open>Properties\<close>

lemma newTelemetryCore_example:
  "newTelemetryCore (exampleRuntime r) (Some exampleInput) = Inr exampleCore"
  by (simp add: newTelemetryCore_def validateAndNormalizeConfig_def exampleInput_def
      exampleRuntime_def exampleCore_def exampleConfig_def initializeProviders_def
      initializeCircuitBreaker_def)


lemma exampleConfig_fields:
  "batching exampleConfig = \<lparr>maxQueueSize = Finite 3, scheduledDelayMillis = 1000\<rparr>"
  "circuitBreaker exampleConfig = \<lparr>failureThreshold = 5, resetTimeoutMs = 60000\<rparr>"
  "retry exampleConfig = \<lparr>maxAttempts = 3, backoffMultiplier = 2, initialDelayMs = 1000\<rparr>"
  "enabled (sanitization exampleConfig) = True"
  "piiPatterns (sanitization exampleConfig) = Some [\<lambda>t. t, \<lambda>t. t, \<lambda>t. t]"
  by (simp_all add: exampleConfig_def)

lemma exampleCore_fields:
  "config exampleCore = exampleConfig"
  "currentProvider exampleCore = Primary"
  "circuitBreakerState exampleCore = closedBreaker"
  "eventQueue exampleCore = []"
  "isInitialized exampleCore = False"
  "timers exampleCore = Map.empty"
  "nextHandle exampleCore = 0"
  "calls exampleCore = []"
  by (simp_all add: exampleCore_def)

lemma exampleRuntime_fields:
  "JSON_stringify (exampleRuntime r) = serialize"
  "JSON_parse (exampleRuntime r) = exampleParse"
  "respond (exampleRuntime r) = r"
  by (simp_all add: exampleRuntime_def)

subsection \<open>The gate of the circuit breaker\<close>

lemma exampleOpenCore_breaker:
  "circuitBreakerState exampleOpenCore =
     \<lparr>state = Open, failureCount = 1, lastFailureTime = Some 1000, nextAttemptTime = Some 61000\<rparr>"
  by (simp add: exampleOpenCore_def initialize_def exampleCore_def callProvider_def
      exampleRuntime_def allReject_def switchToFallback_def openCircuitBreaker_def closedBreaker_def
      exampleConfig_def)

lemma exampleOpenCore_fields:
  "config exampleOpenCore = exampleConfig"
  "currentProvider exampleOpenCore = Fallback"
  "eventQueue exampleOpenCore = []"
  "calls exampleOpenCore = [(Primary, Initialize), (Fallback, Initialize)]"
  by (simp_all add: exampleOpenCore_def initialize_def exampleCore_def callProvider_def
      exampleRuntime_def allReject_def switchToFallback_def openCircuitBreaker_def closedBreaker_def)

text \<open>
  Claim C2, as amended. While the breaker is open, a gate check before \<open>nextAttemptTime\<close>
  returns false and changes nothing; a gate check at or after \<open>nextAttemptTime\<close> returns true
  and moves the breaker to half-open; and every later gate check on that half-open state
  returns true again and leaves it half-open. The gate itself does not limit the number of
  requests let through while half-open.
\<close>

theorem gate_open_then_half_open:
  assumes "state (circuitBreakerState s) = Open"
    and "nextAttemptTime (circuitBreakerState s) = Some t"
  shows "(now < t \<longrightarrow> shouldAttemptRequest now s = (False, s)) \<and>
         (t \<le> now \<longrightarrow>
            fst (shouldAttemptRequest now s) = True \<and>
            state (circuitBreakerState (snd (shouldAttemptRequest now s))) = HalfOpen \<and>
            (\<forall>later. shouldAttemptRequest later (snd (shouldAttemptRequest now s))
                      = (True, snd (shouldAttemptRequest now s))))"
  using assms by (simp add: shouldAttemptRequest_def)

theorem gate_open_then_half_open_witness:
  "state (circuitBreakerState exampleOpenCore) = Open \<and>
   nextAttemptTime (circuitBreakerState exampleOpenCore) = Some 61000 \<and>
   shouldAttemptRequest 2000 exampleOpenCore = (False, exampleOpenCore) \<and>
   fst (shouldAttemptRequest 61000 exampleOpenCore) = True \<and>
   state (circuitBreakerState (snd (shouldAttemptRequest 61000 exampleOpenCore))) = HalfOpen"
  using gate_open_then_half_open [of exampleOpenCore 61000 2000]
    gate_open_then_half_open [of exampleOpenCore 61000 61000]
  by (simp add: exampleOpenCore_breaker)

text \<open>
  The claim as stated asks for a single passing check per cool-down window. After both
  backends failed to initialize at time 1000 (reset timeout 60000), the check at 61000 passes,
  and so do a second check at 61000 and a third at 61001, with no outcome in between.
\<close>

theorem gate_passes_twice_counterexample:
  "fst (shouldAttemptRequest 61000 exampleOpenCore) = True \<and>
   fst (shouldAttemptRequest 61000 (snd (shouldAttemptRequest 61000 exampleOpenCore))) = True \<and>
   fst (shouldAttemptRequest 61001 (snd (shouldAttemptRequest 61000 exampleOpenCore))) = True"
  by (simp add: shouldAttemptRequest_def exampleOpenCore_breaker)

subsection \<open>The bounded queue\<close>

lemma queueEvent_config [simp]: "config (queueEvent e s) = config s"
  by (simp add: queueEvent_def Let_def)

lemma fold_queueEvent_config [simp]: "config (fold queueEvent es s) = config s"
  by (induction es arbitrary: s) simp_all

lemma queueEvent_queue:
  "eventQueue (queueEvent e s) =
     (if length_ge (length (eventQueue s)) (maxQueueSize (batching (config s)))
      then tl (eventQueue s) else eventQueue s) @ [e]"
  by (simp add: queueEvent_def Let_def)

text \<open>
  The queue under any maximum whose test \<open>length >= maxQueueSize\<close> holds from a capacity
  \<open>c\<close> of at least 1 on: it keeps the last \<open>c\<close> arrivals.
\<close>

lemma fold_queueEvent_queue:
  assumes "1 \<le> c"
    and "\<And>n. length_ge n (maxQueueSize (batching (config s))) = (c \<le> n)"
    and "length (eventQueue s) \<le> c"
  shows "eventQueue (fold queueEvent es s) =
           drop (length (eventQueue s @ es) - c) (eventQueue s @ es)"
proof (induction es rule: rev_induct)
  case Nil
  from assms(3) show ?case by simp
next
  case (snoc e es)
  define Q where "Q = eventQueue s @ es"
  define q where "q = eventQueue (fold queueEvent es s)"
  have IH: "q = drop (length Q - c) Q"
    using snoc.IH by (simp only: q_def Q_def)
  have len: "length q = min (length Q) c"
    unfolding IH by (simp add: min_def)
  have step: "eventQueue (fold queueEvent (es @ [e]) s) = (if c \<le> length q then tl q else q) @ [e]"
    by (simp add: queueEvent_queue q_def assms(2))
  have "(if c \<le> length q then tl q else q) @ [e] = drop (length (Q @ [e]) - c) (Q @ [e])"
  proof (cases "c \<le> length Q")
    case True
    then have "c \<le> length q" using len by simp
    moreover have "tl q = drop (Suc (length Q - c)) Q"
      unfolding IH by (simp add: drop_Suc tl_drop)
    moreover have "drop (Suc (length Q - c)) Q @ [e] = drop (length (Q @ [e]) - c) (Q @ [e])"
      using True assms(1) by (simp add: Suc_diff_le)
    ultimately show ?thesis by simp
  next
    case False
    then have "\<not> c \<le> length q" using len by simp
    moreover have "q = Q" using False IH by simp
    ultimately show ?thesis using False by simp
  qed
  with step show ?case by (simp add: Q_def)
qed

lemma length_ge_whole: "length_ge n (Finite (real m)) = (m \<le> n)"
  by (simp add: length_ge_def)

text \<open>
  A positive maximum that is not a whole number bounds the queue by the next whole number
  above it, and under \<open>NaN\<close> (as \<open>parseInt\<close> gives for a malformed environment variable)
  nothing is ever evicted.
\<close>

lemma length_ge_positive:
  assumes "0 < r"
  shows "length_ge n (Finite r) = (nat \<lceil>r\<rceil> \<le> n)"
proof -
  have "(r \<le> real n) = (\<lceil>r\<rceil> \<le> int n)"
    by (simp add: ceiling_le_iff)
  also have "\<dots> = (nat \<lceil>r\<rceil> \<le> n)"
    by linarith
  finally show ?thesis by (simp add: length_ge_def)
qed

lemma queue_capacity_positive:
  assumes "maxQueueSize (batching (config s)) = Finite r" and "0 < r"
    and "length (eventQueue s) \<le> nat \<lceil>r\<rceil>"
  shows "eventQueue (fold queueEvent es s) =
           drop (length (eventQueue s @ es) - nat \<lceil>r\<rceil>) (eventQueue s @ es)"
proof -
  have "1 \<le> nat \<lceil>r\<rceil>" using assms(2) by linarith
  then show ?thesis
    using assms by (intro fold_queueEvent_queue) (simp_all add: length_ge_positive)
qed

lemma queue_unbounded_NaN:
  assumes "maxQueueSize (batching (config s)) = NaN"
  shows "eventQueue (fold queueEvent es s) = eventQueue s @ es"
proof (induction es rule: rev_induct)
  case Nil
  show ?case by simp
next
  case (snoc e es)
  then show ?case using assms by (simp add: queueEvent_queue length_ge_def)
qed

text \<open>
  Claim C3, as amended. For a configured \<open>maxQueueSize\<close> that is a whole number \<open>m\<close> of at
  least 1 and a queue within that bound (the constructor's queue is empty), after any
  sequence of \<open>queueEvent\<close> calls the queue is no longer than \<open>maxQueueSize\<close> and holds, in
  order of arrival, the last \<open>maxQueueSize\<close> of the events queued; a call on a full queue
  removes exactly the oldest entry and appends the new one.
\<close>

theorem queue_bounded_fifo:
  assumes "maxQueueSize (batching (config s)) = Finite (real m)"
    and "1 \<le> m"
    and "length (eventQueue s) \<le> m"
  shows "length (eventQueue (fold queueEvent es s)) \<le> m \<and>
         eventQueue (fold queueEvent es s) =
           drop (length (eventQueue s @ es) - m) (eventQueue s @ es) \<and>
         (length (eventQueue s) = m \<longrightarrow>
            eventQueue (queueEvent e s) = tl (eventQueue s) @ [e])"
proof -
  have ge: "\<And>n. length_ge n (maxQueueSize (batching (config s))) = (m \<le> n)"
    by (simp add: assms(1) length_ge_whole)
  have q: "eventQueue (fold queueEvent es s) =
           drop (length (eventQueue s @ es) - m) (eventQueue s @ es)"
    using assms(2) ge assms(3) by (rule fold_queueEvent_queue)
  have "length (drop (length (eventQueue s @ es) - m) (eventQueue s @ es)) \<le> m"
    by simp
  with q show ?thesis by (simp add: queueEvent_queue ge)
qed

theorem queue_bounded_fifo_witness:
  "maxQueueSize (batching (config exampleCore)) = Finite (real 3) \<and>
   (1::nat) \<le> 3 \<and>
   length (eventQueue exampleCore) \<le> 3 \<and>
   eventQueue (fold queueEvent [exampleEvent 1, exampleEvent 2, exampleEvent 3, exampleEvent 4] exampleCore)
     = [exampleEvent 2, exampleEvent 3, exampleEvent 4]"
  using queue_bounded_fifo [of exampleCore 3
      "[exampleEvent 1, exampleEvent 2, exampleEvent 3, exampleEvent 4]"]
  by (simp add: exampleCore_fields exampleConfig_fields)

text \<open>
  The bound fails for a maximum of 0, which the constructor accepts: the test \<open>length >= 0\<close>
  holds, \<open>shift\<close> removes nothing from the empty queue, and the event is pushed. It fails
  for a maximum of 2.5 as well, also accepted: with two events queued the test \<open>2 >= 2.5\<close>
  is false, and the third event is pushed without an eviction.
\<close>

theorem queue_exceeds_zero_maximum_counterexample:
  "newTelemetryCore (exampleRuntime allResolve) (Some zeroQueueInput) = Inr zeroQueueCore \<and>
   maxQueueSize (batching (config zeroQueueCore)) = Finite 0 \<and>
   eventQueue zeroQueueCore = [] \<and>
   length (eventQueue (queueEvent (exampleEvent 1) zeroQueueCore)) = 1 \<and>
   newTelemetryCore (exampleRuntime allResolve) (Some fractionalQueueInput) = Inr fractionalQueueCore \<and>
   maxQueueSize (batching (config fractionalQueueCore)) = Finite (5 / 2) \<and>
   eventQueue fractionalQueueCore = [] \<and>
   length (eventQueue (queueEvent (exampleEvent 3)
      (queueEvent (exampleEvent 2) (queueEvent (exampleEvent 1) fractionalQueueCore)))) = 3"
  by (simp add: queueEvent_def length_ge_def zeroQueueCore_def fractionalQueueCore_def
      exampleCore_def newTelemetryCore_def
      validateAndNormalizeConfig_def zeroQueueInput_def fractionalQueueInput_def exampleInput_def
      exampleRuntime_def exampleConfig_def initializeProviders_def initializeCircuitBreaker_def)

subsection \<open>Outcomes reported to the breaker\<close>

lemma exampleHalfOpenCore_breaker:
  "circuitBreakerState exampleHalfOpenCore =
     \<lparr>state = HalfOpen, failureCount = 6, lastFailureTime = Some 5, nextAttemptTime = Some 60005\<rparr>"
  by (simp add: exampleHalfOpenCore_def shouldAttemptRequest_def handleFailure_def Let_def
      openCircuitBreaker_def exampleCore_def exampleConfig_def closedBreaker_def)

lemma exampleHalfOpenCore_config: "config exampleHalfOpenCore = exampleConfig"
  by (simp add: exampleHalfOpenCore_def shouldAttemptRequest_def handleFailure_def Let_def
      openCircuitBreaker_def exampleCore_def exampleConfig_def closedBreaker_def)

text \<open>
  When \<open>handleFailure\<close> opens the breaker, the count it leaves is above the threshold, and
  the gate does not change the count: a half-open state that was opened this way meets the
  condition of the second part below.
\<close>

lemma handleFailure_opens_above_threshold:
  assumes "state (circuitBreakerState s) \<noteq> Open"
    and "state (circuitBreakerState (handleFailure now s)) = Open"
  shows "failureCount (circuitBreakerState (handleFailure now s)) >
           failureThreshold (circuitBreaker (config (handleFailure now s)))"
  using assms
  by (simp add: handleFailure_def Let_def openCircuitBreaker_def split: if_splits)

lemma gate_keeps_count:
  "failureCount (circuitBreakerState (snd (shouldAttemptRequest now s))) =
     failureCount (circuitBreakerState s) \<and>
   config (snd (shouldAttemptRequest now s)) = config s"
  by (simp add: shouldAttemptRequest_def split: breaker_state.split option.split)

text \<open>
  Claim C7, as amended. In state half-open a reported success closes the breaker and resets
  the failure count to 0. A reported failure increments the count, and when the incremented
  count has reached \<open>failureThreshold\<close> (as it has whenever the breaker had been opened by
  reaching the threshold) the breaker returns to open with
  \<open>nextAttemptTime = now + resetTimeoutMs\<close>.
\<close>

theorem half_open_outcomes:
  assumes "state (circuitBreakerState s) = HalfOpen"
  shows "circuitBreakerState (handleSuccess s) =
           \<lparr>state = Closed, failureCount = 0, lastFailureTime = None, nextAttemptTime = None\<rparr> \<and>
         (failureCount (circuitBreakerState s) + 1 \<ge> failureThreshold (circuitBreaker (config s)) \<longrightarrow>
            circuitBreakerState (handleFailure now s) =
              \<lparr>state = Open,
               failureCount = failureCount (circuitBreakerState s) + 2,
               lastFailureTime = Some now,
               nextAttemptTime = Some (now + resetTimeoutMs (circuitBreaker (config s)))\<rparr>)"
  using assms
  by (simp add: handleSuccess_def handleFailure_def Let_def openCircuitBreaker_def closedBreaker_def)

theorem half_open_outcomes_witness:
  "state (circuitBreakerState exampleHalfOpenCore) = HalfOpen \<and>
   failureCount (circuitBreakerState exampleHalfOpenCore) + 1
     \<ge> failureThreshold (circuitBreaker (config exampleHalfOpenCore)) \<and>
   state (circuitBreakerState (handleSuccess exampleHalfOpenCore)) = Closed \<and>
   failureCount (circuitBreakerState (handleSuccess exampleHalfOpenCore)) = 0 \<and>
   state (circuitBreakerState (handleFailure 70001 exampleHalfOpenCore)) = Open \<and>
   nextAttemptTime (circuitBreakerState (handleFailure 70001 exampleHalfOpenCore)) = Some 130001"
  using half_open_outcomes [of exampleHalfOpenCore 70001]
  by (simp add: exampleHalfOpenCore_breaker exampleHalfOpenCore_config exampleConfig_def)

text \<open>
  The breaker is also opened, below the threshold, when both backends fail to initialize:
  with threshold 5 the count is then 1. After the cool-down the gate moves to half-open, and
  a failed delivery (reported by \<open>handleFailure\<close>, here also through \<open>recordMetric\<close>) leaves
  the breaker half-open with count 2 and the old timer.
\<close>

theorem half_open_failure_stays_half_open_counterexample:
  "state (circuitBreakerState (snd (shouldAttemptRequest 61000 exampleOpenCore))) = HalfOpen \<and>
   circuitBreakerState (handleFailure 61000 (snd (shouldAttemptRequest 61000 exampleOpenCore))) =
     \<lparr>state = HalfOpen, failureCount = 2, lastFailureTime = Some 1000, nextAttemptTime = Some 61000\<rparr> \<and>
   circuitBreakerState (snd (recordMetric (exampleRuntime allReject) 61000 exampleMetric exampleOpenCore)) =
     \<lparr>state = HalfOpen, failureCount = 2, lastFailureTime = Some 1000, nextAttemptTime = Some 61000\<rparr>"
  apply (simp add: shouldAttemptRequest_def handleFailure_def Let_def exampleOpenCore_breaker exampleOpenCore_fields exampleConfig_def)
  apply (simp add: recordMetric_def processEvent_def shouldAttemptRequest_def exampleOpenCore_breaker exampleOpenCore_fields
      sanitizeData_def exampleConfig_def exampleRuntime_def exampleParse_def exampleMetric_def sendEvent_def callProvider_def
      allReject_def handleFailure_def Let_def handleProviderError_def retryEvent_def)
  done

lemma reportOutcome_config [simp]: "config (reportOutcome d s) = config s"
  by (simp add: reportOutcome_def handleSuccess_def handleFailure_def Let_def openCircuitBreaker_def
      split: delivery.split)

lemma reportOutcome_open:
  "state (circuitBreakerState s) = Open \<Longrightarrow> state (circuitBreakerState (reportOutcome d s)) = Open"
  by (simp add: reportOutcome_def handleSuccess_def handleFailure_def Let_def openCircuitBreaker_def
      split: delivery.split)

lemma fold_reportOutcome_open:
  "state (circuitBreakerState s) = Open \<Longrightarrow> state (circuitBreakerState (fold reportOutcome ds s)) = Open"
  by (induction ds arbitrary: s) (simp_all add: reportOutcome_open)

lemma fold_reportOutcome_closed:
  assumes "state (circuitBreakerState s) = Closed"
  shows "(failureCount (circuitBreakerState s) + failures ds < failureThreshold (circuitBreaker (config s)) \<longrightarrow>
            circuitBreakerState (fold reportOutcome ds s) =
              (circuitBreakerState s)\<lparr>failureCount := failureCount (circuitBreakerState s) + failures ds\<rparr>) \<and>
         (1 \<le> failures ds \<and>
          failureThreshold (circuitBreaker (config s)) \<le> failureCount (circuitBreakerState s) + failures ds \<longrightarrow>
            state (circuitBreakerState (fold reportOutcome ds s)) = Open)"
  using assms
proof (induction ds arbitrary: s)
  case Nil
  then show ?case by (simp add: failures_def)
next
  case (Cons d ds)
  show ?case
  proof (cases "fst d")
    case Succeeded
    then have same: "reportOutcome d s = s" "failures (d # ds) = failures ds"
      using Cons.prems by (simp_all add: reportOutcome_def handleSuccess_def failures_def)
    with Cons.IH [of s] Cons.prems show ?thesis by simp
  next
    case Failed
    then have n: "failures (d # ds) = failures ds + 1"
      by (simp add: failures_def)
    show ?thesis
    proof (cases "failureCount (circuitBreakerState s) + 1 \<ge> failureThreshold (circuitBreaker (config s))")
      case True
      then have "state (circuitBreakerState (reportOutcome d s)) = Open"
        using Failed by (simp add: reportOutcome_def handleFailure_def Let_def openCircuitBreaker_def)
      then have "state (circuitBreakerState (fold reportOutcome (d # ds) s)) = Open"
        by (simp add: fold_reportOutcome_open)
      moreover have "0 \<le> failures ds" by (simp add: failures_def)
      ultimately show ?thesis using True n by auto
    next
      case False
      then have st: "circuitBreakerState (reportOutcome d s) =
          (circuitBreakerState s)\<lparr>failureCount := failureCount (circuitBreakerState s) + 1\<rparr>"
        using Failed by (simp add: reportOutcome_def handleFailure_def Let_def)
      then have cl: "state (circuitBreakerState (reportOutcome d s)) = Closed"
        using Cons.prems by simp
      have "0 \<le> failures ds" by (simp add: failures_def)
      with Cons.IH [OF cl] st n False show ?thesis
        by (auto simp: add.assoc)
    qed
  qed
qed

text \<open>
  Claim C10. In state closed \<open>handleSuccess\<close> changes nothing (it acts only in state
  half-open), \<open>handleFailure\<close> only increases the failure count and the gate leaves it as it
  is. So from a reset breaker (closed, count 0) and any history of reported outcomes, in any
  order: while fewer than \<open>failureThreshold\<close> failures were reported the breaker is closed
  and its count is the number of failures, whatever the number of successes in between; and
  once \<open>failureThreshold\<close> failures were reported the breaker is open.
\<close>

theorem closed_success_keeps_failure_count:
  assumes "state (circuitBreakerState s) = Closed"
    and "failureCount (circuitBreakerState s) = 0"
  shows "handleSuccess s = s \<and>
         (state (circuitBreakerState u) \<noteq> HalfOpen \<longrightarrow> handleSuccess u = u) \<and>
         failureCount (circuitBreakerState u) < failureCount (circuitBreakerState (handleFailure now u)) \<and>
         failureCount (circuitBreakerState (snd (shouldAttemptRequest now u))) =
           failureCount (circuitBreakerState u) \<and>
         (failures ds < failureThreshold (circuitBreaker (config s)) \<longrightarrow>
            circuitBreakerState (fold reportOutcome ds s) =
              (circuitBreakerState s)\<lparr>failureCount := failures ds\<rparr>) \<and>
         (1 \<le> failures ds \<and> failureThreshold (circuitBreaker (config s)) \<le> failures ds \<longrightarrow>
            state (circuitBreakerState (fold reportOutcome ds s)) = Open)"
  using assms fold_reportOutcome_closed [OF assms(1), of ds]
  by (simp add: handleSuccess_def handleFailure_def Let_def openCircuitBreaker_def
      shouldAttemptRequest_def split: breaker_state.split option.split)

theorem closed_success_keeps_failure_count_witness:
  "state (circuitBreakerState exampleCore) = Closed \<and>
   failureCount (circuitBreakerState exampleCore) = 0 \<and>
   failureThreshold (circuitBreaker (config exampleCore)) = 5 \<and>
   failures [(Failed, 1), (Succeeded, 2), (Failed, 3), (Succeeded, 4), (Succeeded, 5), (Failed, 6),
             (Failed, 7), (Succeeded, 8), (Failed, 9), (Succeeded, 10)] = 5 \<and>
   state (circuitBreakerState (fold reportOutcome
      [(Failed, 1), (Succeeded, 2), (Failed, 3), (Succeeded, 4), (Succeeded, 5), (Failed, 6),
       (Failed, 7), (Succeeded, 8), (Failed, 9), (Succeeded, 10)] exampleCore)) = Open \<and>
   failures [(Failed, 1), (Succeeded, 2), (Failed, 3)] = 2 \<and>
   failureCount (circuitBreakerState (fold reportOutcome [(Failed, 1), (Succeeded, 2), (Failed, 3)] exampleCore)) = 2"
  using closed_success_keeps_failure_count [where s = exampleCore and ds =
      "[(Failed, 1), (Succeeded, 2), (Failed, 3), (Succeeded, 4), (Succeeded, 5), (Failed, 6),
       (Failed, 7), (Succeeded, 8), (Failed, 9), (Succeeded, 10)]"]
    closed_success_keeps_failure_count [where s = exampleCore and ds = "[(Failed, 1), (Succeeded, 2), (Failed, 3)]"]
  by (simp add: exampleCore_def exampleConfig_def closedBreaker_def failures_def)


subsection \<open>Starting a trace while the gate is blocking\<close>

lemma shouldAttemptRequest_blocked:
  "fst (shouldAttemptRequest now s) = False \<Longrightarrow> shouldAttemptRequest now s = (False, s)"
  by (auto simp: shouldAttemptRequest_def split: breaker_state.splits option.splits if_splits)

lemma queueEvent_calls [simp]: "calls (queueEvent e s) = calls s"
  by (simp add: queueEvent_def Let_def)

text \<open>
  Claim C4, as amended. Whenever the gate is blocking, \<open>startTrace\<close> (once sanitization has
  returned the payload) enqueues the trace event in the bounded queue and returns the
  synthetic placeholder id \<open>queued-<now>\<close> at once, without calling any backend.
\<close>

theorem startTrace_blocked:
  assumes "fst (shouldAttemptRequest now s) = False"
    and "sanitizeData rt (config s) trace = Inr sanitizedTrace"
  shows "startTrace rt now trace s =
           (Inr (''queued-'' @ show_int now),
            queueEvent \<lparr>type = Trace, data = sanitizedTrace, timestamp = now, retryCount = None\<rparr> s) \<and>
         calls (snd (startTrace rt now trace s)) = calls s"
  using assms shouldAttemptRequest_blocked [OF assms(1)]
  by (simp add: startTrace_def Let_def)

lemma sanitize_exampleMetric:
  "sanitizeData (exampleRuntime r) exampleConfig exampleMetric = Inr exampleMetric"
  by (simp add: sanitizeData_def exampleConfig_def exampleRuntime_def exampleParse_def exampleMetric_def)

theorem startTrace_blocked_witness:
  "fst (shouldAttemptRequest 2000 exampleOpenCore) = False \<and>
   sanitizeData (exampleRuntime allReject) (config exampleOpenCore) exampleMetric = Inr exampleMetric \<and>
   fst (startTrace (exampleRuntime allReject) 2000 exampleMetric exampleOpenCore) = Inr ''queued-2000'' \<and>
   calls (snd (startTrace (exampleRuntime allReject) 2000 exampleMetric exampleOpenCore)) = calls exampleOpenCore"
  using startTrace_blocked [of 2000 exampleOpenCore "exampleRuntime allReject" exampleMetric exampleMetric]
  by (simp add: shouldAttemptRequest_def exampleOpenCore_breaker exampleOpenCore_fields sanitize_exampleMetric
      show_int_def show_nat.simps digit_char_def)

text \<open>
  The claim as stated has the call return "rather than queuing". With the breaker open
  (both backends failed to initialize at 1000) and an empty queue, \<open>startTrace\<close> at 2000
  leaves the trace event in the queue.
\<close>

theorem startTrace_blocked_queues_counterexample:
  "fst (shouldAttemptRequest 2000 exampleOpenCore) = False \<and>
   eventQueue exampleOpenCore = [] \<and>
   eventQueue (snd (startTrace (exampleRuntime allReject) 2000 exampleMetric exampleOpenCore)) =
     [\<lparr>type = Trace, data = exampleMetric, timestamp = 2000, retryCount = None\<rparr>]"
  by (simp add: startTrace_def Let_def shouldAttemptRequest_def exampleOpenCore_breaker exampleOpenCore_fields
      sanitize_exampleMetric queueEvent_def exampleConfig_fields)

subsection \<open>What the recording calls return when delivery fails\<close>

lemma handleProviderError_returns: "fst (handleProviderError rt now e s) = Inr ()"
  by (simp add: handleProviderError_def split: prod.split sum.split)

lemma processEvent_returns: "fst (processEvent rt now e s) = Inr ()"
  by (simp add: processEvent_def handleProviderError_returns split: prod.split sum.split bool.split)

lemma initialize_outcome:
  "fst (initialize rt now s) = Inr () \<or>
   fst (initialize rt now s) = Inl (Error ''Both primary and fallback providers failed to initialize'')"
  by (simp add: initialize_def switchToFallback_def split: prod.split sum.split)

text \<open>
  Claim C1, as amended. Whatever the backends answer, \<open>processEvent\<close> and a fired retry
  timer return normally, and \<open>recordMetric\<close>, \<open>recordLog\<close> and \<open>endTrace\<close> return normally
  unless sanitization itself throws before anything is sent: a delivery failure is absorbed
  by queueing, switching to the fallback or scheduling a retry. \<open>startTrace\<close> returns the
  placeholder id when the gate is blocking and otherwise gives its caller exactly the
  outcome of the current backend's \<open>startTrace\<close>: when that rejects, the failure is reported
  to the breaker and handled, and the backend's error is thrown again. \<open>initialize\<close> rejects
  with the both-providers-failed error or not at all.
\<close>

theorem delivery_failure_outcomes:
  "fst (processEvent rt now event s) = Inr () \<and>
   fst (retryTimerFired rt now h s) = Inr () \<and>
   fst (recordMetric rt now metric s) =
     (case sanitizeData rt (config s) metric of Inl e \<Rightarrow> Inl e | Inr _ \<Rightarrow> Inr ()) \<and>
   fst (recordLog rt now entry s) =
     (case sanitizeData rt (config s) entry of Inl e \<Rightarrow> Inl e | Inr _ \<Rightarrow> Inr ()) \<and>
   fst (endTrace rt now spanId attributes s) =
     (case (if truthy attributes then sanitizeData rt (config s) attributes else Inr JUndefined) of
        Inl e \<Rightarrow> Inl e | Inr _ \<Rightarrow> Inr ()) \<and>
   fst (startTrace rt now trace s) =
     (case sanitizeData rt (config s) trace of
        Inl e \<Rightarrow> Inl e
      | Inr sanitizedTrace \<Rightarrow>
          if fst (shouldAttemptRequest now s)
          then respond rt (calls s) (currentProvider s, StartTrace sanitizedTrace)
          else Inr (''queued-'' @ show_int now)) \<and>
   (fst (initialize rt now s) = Inr () \<or>
    fst (initialize rt now s) =
      Inl (Error ''Both primary and fallback providers failed to initialize''))"
proof -
  have gate: "calls (snd (shouldAttemptRequest now s)) = calls s"
    "currentProvider (snd (shouldAttemptRequest now s)) = currentProvider s"
    by (simp_all add: shouldAttemptRequest_def split: breaker_state.split option.split)
  have a: "fst (retryTimerFired rt now h s) = Inr ()"
    by (simp add: retryTimerFired_def processEvent_returns split: option.split)
  have b: "fst (recordMetric rt now metric s) =
     (case sanitizeData rt (config s) metric of Inl e \<Rightarrow> Inl e | Inr _ \<Rightarrow> Inr ())"
    by (simp add: recordMetric_def processEvent_returns split: sum.split)
  have c: "fst (recordLog rt now entry s) =
     (case sanitizeData rt (config s) entry of Inl e \<Rightarrow> Inl e | Inr _ \<Rightarrow> Inr ())"
    by (simp add: recordLog_def processEvent_returns split: sum.split)
  have d: "fst (endTrace rt now spanId attributes s) =
     (case (if truthy attributes then sanitizeData rt (config s) attributes else Inr JUndefined) of
        Inl e \<Rightarrow> Inl e | Inr _ \<Rightarrow> Inr ())"
    by (simp add: endTrace_def split: sum.split prod.split bool.split)
  have e: "fst (startTrace rt now trace s) =
     (case sanitizeData rt (config s) trace of
        Inl e \<Rightarrow> Inl e
      | Inr sanitizedTrace \<Rightarrow>
          if fst (shouldAttemptRequest now s)
          then respond rt (calls s) (currentProvider s, StartTrace sanitizedTrace)
          else Inr (''queued-'' @ show_int now))"
  proof (cases "sanitizeData rt (config s) trace")
    case (Inl e)
    then show ?thesis by (simp add: startTrace_def)
  next
    case (Inr t)
    obtain g s1 where g: "shouldAttemptRequest now s = (g, s1)" by (cases "shouldAttemptRequest now s")
    with gate have s1: "calls s1 = calls s" "currentProvider s1 = currentProvider s" by simp_all
    show ?thesis
    proof (cases g)
      case False
      with Inr g show ?thesis by (simp add: startTrace_def Let_def)
    next
      case True
      obtain r s2 where r: "callProvider rt (StartTrace t) s1 = (r, s2)"
        by (cases "callProvider rt (StartTrace t) s1")
      then have rr: "r = respond rt (calls s) (currentProvider s, StartTrace t)"
        using s1 by (simp add: callProvider_def)
      show ?thesis
      proof (cases r)
        case (Inl err)
        obtain s3 where "handleProviderError rt now
                \<lparr>type = Trace, data = t, timestamp = now, retryCount = None\<rparr>
                (handleFailure now s2) = (Inr (), s3)"
          using handleProviderError_returns [of rt now
              "\<lparr>type = Trace, data = t, timestamp = now, retryCount = None\<rparr>" "handleFailure now s2"]
          by (cases "handleProviderError rt now
                \<lparr>type = Trace, data = t, timestamp = now, retryCount = None\<rparr>
                (handleFailure now s2)") simp
        then show ?thesis using Inr g True r Inl rr
          by (simp add: startTrace_def Let_def)
      next
        case (Inr spanId)
        then show ?thesis using \<open>sanitizeData rt (config s) trace = Inr t\<close> g True r rr
          by (simp add: startTrace_def Let_def)
      qed
    qed
  qed
  show ?thesis using processEvent_returns a b c d e initialize_outcome [of rt now s] by simp
qed

text \<open>
  The claim as stated includes \<open>startTrace\<close> among the calls that never reject on a delivery
  failure. With a primary backend that rejects and a healthy fallback, \<open>startTrace\<close> switches
  to the fallback and still rejects with the primary's error.
\<close>

theorem startTrace_rethrows_counterexample:
  "fst (startTrace (exampleRuntime primaryRejects) 2000 exampleMetric exampleCore) =
     Inl (Error ''backend unavailable'') \<and>
   currentProvider (snd (startTrace (exampleRuntime primaryRejects) 2000 exampleMetric exampleCore)) = Fallback \<and>
   calls (snd (startTrace (exampleRuntime primaryRejects) 2000 exampleMetric exampleCore)) =
     [(Primary, StartTrace exampleMetric), (Fallback, Initialize)]"
  by (simp add: startTrace_def Let_def exampleCore_fields sanitize_exampleMetric shouldAttemptRequest_def
      closedBreaker_def callProvider_def exampleRuntime_fields primaryRejects_def handleFailure_def
      exampleConfig_fields handleProviderError_def switchToFallback_def processQueuedEvents_def sendEvent_def)

subsection \<open>The sanitizer\<close>

lemma redact_text: "redact ps (Some str) = Inr (Some (fold (\<lambda>p t. p t) ps str))"
  by (induction ps arbitrary: str) simp_all

lemma sanitizeData_disabled:
  "\<not> enabled (sanitization cfg) \<Longrightarrow> sanitizeData rt cfg d = Inr d"
  by (simp add: sanitizeData_def)

lemma sanitizeData_serializable:
  assumes "enabled (sanitization cfg)" and "JSON_stringify rt d = Inr (Some str)"
    and "piiPatterns (sanitization cfg) = Some ps"
  shows "sanitizeData rt cfg d =
           Inr (case JSON_parse rt (fold (\<lambda>p t. p t) ps str) of
                  Inr v \<Rightarrow> v | Inl _ \<Rightarrow> d)"
  using assms by (simp add: sanitizeData_def redact_text split: sum.split)

lemma sanitizeData_throws_iff:
  "(\<exists>e. sanitizeData rt cfg d = Inl e) \<longleftrightarrow>
     enabled (sanitization cfg) \<and>
     ((\<exists>e. JSON_stringify rt d = Inl e) \<or>
      piiPatterns (sanitization cfg) = None \<or>
      (JSON_stringify rt d = Inr None \<and> piiPatterns (sanitization cfg) \<noteq> Some []))"
proof (cases "JSON_stringify rt d")
  case (Inl e)
  then show ?thesis by (simp add: sanitizeData_def)
next
  case stringified: (Inr r)
  show ?thesis
  proof (cases "piiPatterns (sanitization cfg)")
    case None
    with stringified show ?thesis by (simp add: sanitizeData_def)
  next
    case patterns: (Some ps)
    show ?thesis
    proof (cases r)
      case None
      with stringified patterns show ?thesis
        by (cases ps) (simp_all add: sanitizeData_def split: sum.split)
    next
      case (Some str)
      with stringified patterns show ?thesis
        by (simp add: sanitizeData_def redact_text split: sum.split)
    qed
  qed
qed

text \<open>
  A configuration that carries \<open>piiPatterns: undefined\<close> passes the constructor, and the
  sanitizer then throws on every payload it can serialize.
\<close>

lemma sanitizeData_undefined_patterns:
  "(case newTelemetryCore (exampleRuntime allResolve) (Some undefinedPatternsInput) of
      Inl e \<Rightarrow> False
    | Inr s \<Rightarrow>
        sanitizeData (exampleRuntime allResolve) (config s) exampleMetric =
          Inl (TypeError ''this.config.sanitization.piiPatterns is not iterable''))"
  by (simp add: newTelemetryCore_def validateAndNormalizeConfig_def undefinedPatternsInput_def
      exampleInput_def initializeCircuitBreaker_def sanitizeData_def exampleRuntime_fields
      exampleMetric_def)

text \<open>
  Claim C5 says that the sanitizer never throws, for every payload. The fail-open \<open>catch\<close>
  covers \<open>JSON.parse\<close> only; \<open>JSON.stringify\<close> stands before the \<open>try\<close>. On a metric whose
  attributes hold a BigInt (a value of \<open>Record<string, any>\<close>) the sanitizer throws the
  TypeError of \<open>JSON.stringify\<close>, and \<open>recordMetric\<close> rejects with it before anything is sent.
\<close>

theorem sanitizeData_throws_on_bigint:
  "sanitizeData (exampleRuntime allResolve) exampleConfig bigIntMetric =
     Inl (TypeError ''Do not know how to serialize a BigInt'') \<and>
   fst (recordMetric (exampleRuntime allResolve) 2000 bigIntMetric exampleCore) =
     Inl (TypeError ''Do not know how to serialize a BigInt'')"
  by (simp add: recordMetric_def sanitizeData_def exampleCore_def exampleConfig_def exampleRuntime_def bigIntMetric_def)

subsection \<open>Construction\<close>

text \<open>
  Claim C8. For every configuration whose \<open>serviceName\<close> or \<open>serviceVersion\<close> is missing
  (undefined or the empty string), the constructor throws the configuration error of
  \<open>validateAndNormalizeConfig\<close>. The error is the constructor's whole result: the validation
  runs before \<open>initializeProviders\<close>, so no provider object is created, and without a
  \<open>TelemetryCore\<close> object no backend is initialized.
\<close>

theorem construction_requires_name_and_version:
  assumes "serviceName' c = None \<or> serviceName' c = Some [] \<or>
           serviceVersion' c = None \<or> serviceVersion' c = Some []"
  shows "newTelemetryCore rt (Some c) =
           Inl (Error (if serviceName' c = None \<or> serviceName' c = Some []
                       then ''serviceName is required in telemetry configuration''
                       else ''serviceVersion is required in telemetry configuration''))"
proof -
  have "validateAndNormalizeConfig rt c =
           Inl (Error (if serviceName' c = None \<or> serviceName' c = Some []
                       then ''serviceName is required in telemetry configuration''
                       else ''serviceVersion is required in telemetry configuration''))"
  proof (cases "serviceName' c")
    case None
    then show ?thesis by (simp add: validateAndNormalizeConfig_def)
  next
    case name: (Some name)
    show ?thesis
    proof (cases "name = []")
      case True
      with name show ?thesis by (simp add: validateAndNormalizeConfig_def)
    next
      case False
      with name assms consider "serviceVersion' c = None" | "serviceVersion' c = Some []"
        by auto
      then show ?thesis
      proof cases
        case 1
        with name False show ?thesis by (simp add: validateAndNormalizeConfig_def)
      next
        case 2
        with name False show ?thesis by (simp add: validateAndNormalizeConfig_def)
      qed
    qed
  qed
  then show ?thesis by (simp add: newTelemetryCore_def)
qed

theorem construction_requires_name_and_version_witness:
  "(serviceName' noNameInput = None \<or> serviceName' noNameInput = Some [] \<or>
    serviceVersion' noNameInput = None \<or> serviceVersion' noNameInput = Some []) \<and>
   newTelemetryCore (exampleRuntime allResolve) (Some noNameInput) =
     Inl (Error ''serviceName is required in telemetry configuration'')"
  using construction_requires_name_and_version [of noNameInput "exampleRuntime allResolve"]
  by (simp add: noNameInput_def exampleInput_def)


subsection \<open>The retry scheduler\<close>

text \<open>
  Claim C6. \<open>retryEvent\<close> computes the incremented attempt count \<open>rc\<close>. If \<open>rc\<close> exceeds
  \<open>maxAttempts\<close> the call changes nothing: no timer is armed and the event is in no queue,
  so nothing can send it again. Otherwise exactly one timer is armed, under a new handle,
  with delay \<open>initialDelayMs * backoffMultiplier ^ (rc - 1)\<close>, and when that timer fires
  the event, now carrying the attempt count \<open>rc\<close>, is handed to \<open>processEvent\<close>.
\<close>

theorem retryEvent_schedule:
  assumes "rc = (case retryCount event of None \<Rightarrow> 0 | Some n \<Rightarrow> n) + 1"
    and "k = type_name (type event) @ ''-'' @ show_int (timestamp event) @ ''-'' @ show_nat rc"
  shows "(int rc > maxAttempts (retry (config s)) \<longrightarrow> retryEvent event s = s) \<and>
         (int rc \<le> maxAttempts (retry (config s)) \<longrightarrow>
            retryEvent event s =
              s\<lparr>timers := (timers s)(nextHandle s \<mapsto>
                    \<lparr>delay = initialDelayMs (retry (config s)) *
                              backoffMultiplier (retry (config s)) ^ (rc - 1),
                     eventKey = k, timerEvent = event, timerRetryCount = rc\<rparr>),
                nextHandle := nextHandle s + 1,
                retryTimeouts := (retryTimeouts s)(k \<mapsto> nextHandle s)\<rparr> \<and>
            retryTimerFired rt now (nextHandle s) (retryEvent event s) =
              processEvent rt now (event\<lparr>retryCount := Some rc\<rparr>)
                (s\<lparr>timers := (timers s)(nextHandle s := None),
                   nextHandle := nextHandle s + 1,
                   retryTimeouts := (retryTimeouts s)(k := None)\<rparr>))"
proof (intro conjI impI)
  assume "int rc > maxAttempts (retry (config s))"
  then show "retryEvent event s = s"
    using assms by (simp add: retryEvent_def Let_def)
next
  assume le: "int rc \<le> maxAttempts (retry (config s))"
  then show armed: "retryEvent event s =
              s\<lparr>timers := (timers s)(nextHandle s \<mapsto>
                    \<lparr>delay = initialDelayMs (retry (config s)) *
                              backoffMultiplier (retry (config s)) ^ (rc - 1),
                     eventKey = k, timerEvent = event, timerRetryCount = rc\<rparr>),
                nextHandle := nextHandle s + 1,
                retryTimeouts := (retryTimeouts s)(k \<mapsto> nextHandle s)\<rparr>"
    using assms by (simp add: retryEvent_def Let_def)
  have after: "(retryEvent event s)
         \<lparr>timers := (timers (retryEvent event s))(nextHandle s := None),
          retryTimeouts := (retryTimeouts (retryEvent event s))(k := None)\<rparr> =
        s\<lparr>timers := (timers s)(nextHandle s := None),
          nextHandle := nextHandle s + 1,
          retryTimeouts := (retryTimeouts s)(k := None)\<rparr>"
    unfolding armed by (rule core.equality) simp_all
  have "retryTimerFired rt now (nextHandle s) (retryEvent event s) =
          processEvent rt now (event\<lparr>retryCount := Some rc\<rparr>)
            ((retryEvent event s)
               \<lparr>timers := (timers (retryEvent event s))(nextHandle s := None),
                retryTimeouts := (retryTimeouts (retryEvent event s))(k := None)\<rparr>)"
    unfolding retryTimerFired_def by (simp add: armed)
  then show "retryTimerFired rt now (nextHandle s) (retryEvent event s) =
              processEvent rt now (event\<lparr>retryCount := Some rc\<rparr>)
                (s\<lparr>timers := (timers s)(nextHandle s := None),
                   nextHandle := nextHandle s + 1,
                   retryTimeouts := (retryTimeouts s)(k := None)\<rparr>)"
    by (simp only: after)
qed

theorem retryEvent_schedule_witness:
  "int 4 > maxAttempts (retry (config exampleCore)) \<and>
   retryEvent (retriedEvent 3) exampleCore = exampleCore \<and>
   int 3 \<le> maxAttempts (retry (config exampleCore)) \<and>
   timers (retryEvent (retriedEvent 2) exampleCore) (nextHandle exampleCore) =
     Some \<lparr>delay = 4000, eventKey = ''metric-2000-3'', timerEvent = retriedEvent 2,
           timerRetryCount = 3\<rparr> \<and>
   retryTimerFired (exampleRuntime allReject) 6000 (nextHandle exampleCore)
       (retryEvent (retriedEvent 2) exampleCore) =
     processEvent (exampleRuntime allReject) 6000 ((retriedEvent 2)\<lparr>retryCount := Some 3\<rparr>)
       (exampleCore\<lparr>timers := (timers exampleCore)(nextHandle exampleCore := None),
                     nextHandle := nextHandle exampleCore + 1,
                     retryTimeouts := (retryTimeouts exampleCore)(''metric-2000-3'' := None)\<rparr>)"
proof -
  have max: "maxAttempts (retry (config exampleCore)) = 3"
    by (simp add: exampleCore_fields exampleConfig_fields)
  have rc4: "4 = (case retryCount (retriedEvent 3) of None \<Rightarrow> 0 | Some n \<Rightarrow> n) + 1"
    and rc3: "3 = (case retryCount (retriedEvent 2) of None \<Rightarrow> 0 | Some n \<Rightarrow> n) + 1"
    by (simp_all add: retriedEvent_def)
  have k4: "''metric-2000-4'' =
      type_name (type (retriedEvent 3)) @ ''-'' @ show_int (timestamp (retriedEvent 3)) @ ''-'' @ show_nat 4"
    and k3: "''metric-2000-3'' =
      type_name (type (retriedEvent 2)) @ ''-'' @ show_int (timestamp (retriedEvent 2)) @ ''-'' @ show_nat 3"
    by (simp_all add: retriedEvent_def type_name_def show_int_def show_nat.simps digit_char_def)
  have over: "int 4 > maxAttempts (retry (config exampleCore))"
    and within: "int 3 \<le> maxAttempts (retry (config exampleCore))"
    by (simp_all add: max)
  from retryEvent_schedule [OF rc4 k4, of exampleCore "exampleRuntime allReject" 6000] over
  have dropped: "retryEvent (retriedEvent 3) exampleCore = exampleCore"
    by blast
  from retryEvent_schedule [OF rc3 k3, of exampleCore "exampleRuntime allReject" 6000] within
  have armed: "retryEvent (retriedEvent 2) exampleCore =
      exampleCore\<lparr>timers := (timers exampleCore)(nextHandle exampleCore \<mapsto>
            \<lparr>delay = initialDelayMs (retry (config exampleCore)) *
                      backoffMultiplier (retry (config exampleCore)) ^ (3 - 1),
             eventKey = ''metric-2000-3'', timerEvent = retriedEvent 2, timerRetryCount = 3\<rparr>),
          nextHandle := nextHandle exampleCore + 1,
          retryTimeouts := (retryTimeouts exampleCore)(''metric-2000-3'' \<mapsto> nextHandle exampleCore)\<rparr>"
    and fired: "retryTimerFired (exampleRuntime allReject) 6000 (nextHandle exampleCore)
       (retryEvent (retriedEvent 2) exampleCore) =
     processEvent (exampleRuntime allReject) 6000 ((retriedEvent 2)\<lparr>retryCount := Some 3\<rparr>)
       (exampleCore\<lparr>timers := (timers exampleCore)(nextHandle exampleCore := None),
                     nextHandle := nextHandle exampleCore + 1,
                     retryTimeouts := (retryTimeouts exampleCore)(''metric-2000-3'' := None)\<rparr>)"
    by blast+
  have timer: "timers (retryEvent (retriedEvent 2) exampleCore) (nextHandle exampleCore) =
     Some \<lparr>delay = 4000, eventKey = ''metric-2000-3'', timerEvent = retriedEvent 2,
           timerRetryCount = 3\<rparr>"
    by (subst armed) (simp add: exampleCore_fields exampleConfig_fields)
  from over dropped within timer fired show ?thesis
    by blast
qed

subsection \<open>Falling back at initialization\<close>

lemma retryEvent_frame [simp]:
  "calls (retryEvent e s) = calls s"
  "currentProvider (retryEvent e s) = currentProvider s"
  "circuitBreakerState (retryEvent e s) = circuitBreakerState s"
  "eventQueue (retryEvent e s) = eventQueue s"
  "isInitialized (retryEvent e s) = isInitialized s"
  by (simp_all add: retryEvent_def Let_def)

lemma sendEvent_frame [simp]:
  "currentProvider (snd (sendEvent rt e s)) = currentProvider s"
  "circuitBreakerState (snd (sendEvent rt e s)) = circuitBreakerState s"
  "eventQueue (snd (sendEvent rt e s)) = eventQueue s"
  "isInitialized (snd (sendEvent rt e s)) = isInitialized s"
  "calls (snd (sendEvent rt e s)) = calls s @ deliveryCalls (currentProvider s) [e]"
  by (simp_all add: sendEvent_def callProvider_def split: event_type.split sum.split)

lemma drainEvents_frame:
  "currentProvider (drainEvents rt es s) = currentProvider s \<and>
   circuitBreakerState (drainEvents rt es s) = circuitBreakerState s \<and>
   eventQueue (drainEvents rt es s) = eventQueue s \<and>
   isInitialized (drainEvents rt es s) = isInitialized s \<and>
   calls (drainEvents rt es s) = calls s @ deliveryCalls (currentProvider s) es"
proof (induction es arbitrary: s)
  case Nil
  show ?case by simp
next
  case (Cons e es)
  obtain r s1 where r: "sendEvent rt e s = (r, s1)" by (cases "sendEvent rt e s")
  then have s1: "s1 = snd (sendEvent rt e s)" by simp
  show ?case
  proof (cases r)
    case (Inl err)
    with r have "drainEvents rt (e # es) s = drainEvents rt es (retryEvent e s1)" by simp
    then show ?thesis using Cons.IH [of "retryEvent e s1"] by (simp add: s1)
  next
    case (Inr u)
    with r have "drainEvents rt (e # es) s = drainEvents rt es s1" by simp
    then show ?thesis using Cons.IH [of s1] by (simp add: s1)
  qed
qed

lemma processQueuedEvents_frame:
  "currentProvider (processQueuedEvents rt s) = currentProvider s \<and>
   circuitBreakerState (processQueuedEvents rt s) = circuitBreakerState s \<and>
   eventQueue (processQueuedEvents rt s) = [] \<and>
   isInitialized (processQueuedEvents rt s) = isInitialized s \<and>
   calls (processQueuedEvents rt s) = calls s @ deliveryCalls (currentProvider s) (eventQueue s)"
  by (simp add: processQueuedEvents_def drainEvents_frame)

text \<open>
  Claim C9. When \<open>initialize\<close> runs with the primary as current backend, the primary's
  \<open>initialize\<close> rejects and the fallback's resolves, then \<open>initialize\<close> returns normally, the
  current backend is the fallback, the breaker is closed with failure count 0, the queue is
  empty and every queued metric and log event was sent to the fallback in queue order
  right after the fallback's initialization, and \<open>getHealthStatus\<close> names the current
  backend \<open>fallback\<close>.
\<close>

theorem initialize_falls_back:
  assumes "\<not> isInitialized s"
    and "currentProvider s = Primary"
    and "respond rt (calls s) (Primary, Initialize) = Inl e"
    and "respond rt (calls s @ [(Primary, Initialize)]) (Fallback, Initialize) = Inr v"
  shows "fst (initialize rt now s) = Inr () \<and>
         currentProvider (snd (initialize rt now s)) = Fallback \<and>
         circuitBreakerState (snd (initialize rt now s)) =
           \<lparr>state = Closed, failureCount = 0, lastFailureTime = None, nextAttemptTime = None\<rparr> \<and>
         eventQueue (snd (initialize rt now s)) = [] \<and>
         calls (snd (initialize rt now s)) =
           calls s @ [(Primary, Initialize), (Fallback, Initialize)] @
           deliveryCalls Fallback (eventQueue s) \<and>
         providerName (getHealthStatus rt (snd (initialize rt now s))) = ''fallback''"
  using assms
  by (simp add: initialize_def callProvider_def switchToFallback_def processQueuedEvents_frame
      getHealthStatus_def closedBreaker_def)

lemma exampleQueuedCore_fields:
  "isInitialized exampleQueuedCore = False"
  "currentProvider exampleQueuedCore = Primary"
  "calls exampleQueuedCore = []"
  "eventQueue exampleQueuedCore = [exampleEvent 1, exampleTraceEvent 2, exampleLogEvent 3]"
  by (simp_all add: exampleQueuedCore_def queueEvent_def length_ge_def exampleCore_fields
      exampleConfig_fields)

theorem initialize_falls_back_witness:
  "\<not> isInitialized exampleQueuedCore \<and>
   currentProvider exampleQueuedCore = Primary \<and>
   respond (exampleRuntime primaryRejects) (calls exampleQueuedCore) (Primary, Initialize) =
     Inl (Error ''backend unavailable'') \<and>
   respond (exampleRuntime primaryRejects) (calls exampleQueuedCore @ [(Primary, Initialize)])
     (Fallback, Initialize) = Inr ''span-1'' \<and>
   fst (initialize (exampleRuntime primaryRejects) 1000 exampleQueuedCore) = Inr () \<and>
   eventQueue (snd (initialize (exampleRuntime primaryRejects) 1000 exampleQueuedCore)) = [] \<and>
   calls (snd (initialize (exampleRuntime primaryRejects) 1000 exampleQueuedCore)) =
     [(Primary, Initialize), (Fallback, Initialize),
      (Fallback, RecordMetric exampleMetric), (Fallback, RecordLog exampleMetric)] \<and>
   providerName (getHealthStatus (exampleRuntime primaryRejects)
      (snd (initialize (exampleRuntime primaryRejects) 1000 exampleQueuedCore))) = ''fallback''"
  using initialize_falls_back [of exampleQueuedCore "exampleRuntime primaryRejects"
      "Error ''backend unavailable''" "''span-1''" 1000]
  by (simp add: exampleQueuedCore_fields exampleRuntime_fields primaryRejects_def
      exampleEvent_def exampleTraceEvent_def exampleLogEvent_def)

end
